theory Spec2Isabelle
  imports Main
begin

section \<open>Python strings\<close>

text \<open>
  A Python \<open>str\<close> is modelled as a \<open>string\<close>: a list of characters with code points
  below 256.  \<open>isspace\<close> is Python's \<open>str.isspace\<close> on one character of that range:
  tab, line feed, vertical tab, form feed, carriage return, the four separators
  \<open>0x1c\<close> to \<open>0x1f\<close>, space, next line (\<open>0x85\<close>) and no-break space (\<open>0xa0\<close>).
  \<open>strip\<close> is \<open>str.strip()\<close> without arguments: it removes the longest whitespace
  prefix and the longest whitespace suffix.
\<close>

definition isspace :: "char \<Rightarrow> bool" where
  "isspace c =
     (let n = (of_char c :: nat)
      in (9 \<le> n \<and> n \<le> 13) \<or> (28 \<le> n \<and> n \<le> 32) \<or> n = 133 \<or> n = 160)"

definition lstrip :: "string \<Rightarrow> string" where
  "lstrip s = dropWhile isspace s"

definition rstrip :: "string \<Rightarrow> string" where
  "rstrip s = rev (dropWhile isspace (rev s))"

definition strip :: "string \<Rightarrow> string" where
  "strip s = rstrip (lstrip s)"

section \<open>The PDF libraries\<close>

text \<open>
  \<open>extract_text_from_pdf\<close> talks to three libraries: pdfplumber (the text layer),
  pdf2image (\<open>convert_from_path\<close>) and pytesseract (\<open>image_to_string\<close>).  A call either
  raises or returns.  A page is known by what its \<open>extract_text()\<close> does (it returns a
  \<open>str\<close> or \<open>None\<close>, the same at both calls the loop body makes); an image by what
  \<open>image_to_string\<close> does on it.  The record \<open>libs\<close> says what the libraries do for
  each path.  Leaving the \<open>with\<close> block (closing the document) is taken not to raise.
\<close>

datatype 'a outcome = Raises | Returns 'a

type_synonym page = "string option outcome"

type_synonym image = "string outcome"

record libs =
  pdfplumber_open :: "string \<Rightarrow> page list outcome"
  convert_from_path :: "string \<Rightarrow> image list outcome"

text \<open>
  The calls made are logged, in order, so that a statement can say that a library was
  never called.  The frame of the function holds its one local variable \<open>text\<close>
  (here \<open>text_buf\<close>) and the log.
\<close>

datatype call = PdfplumberOpen | ExtractText | ConvertFromPath | ImageToString

record frame =
  text_buf :: string
  calls :: "call list"

text \<open>How a block of statements ends: it falls through, raises, or returns a value.\<close>

datatype flow = Normal | Raised | Returned string

definition init_frame :: frame where
  "init_frame = \<lparr>text_buf = [], calls = []\<rparr>"

definition log_call :: "call \<Rightarrow> frame \<Rightarrow> frame" where
  "log_call c s = s\<lparr>calls := calls s @ [c]\<rparr>"

section \<open>extract_text_from_pdf\<close>

text \<open>
  \<^verbatim>\<open>for page in pdf.pages:
    if page.extract_text():
        text += page.extract_text()\<close>

  \<open>None\<close> and the empty string are falsy.  A raise leaves \<open>text\<close> as it is at
  that moment.
\<close>

fun pages_loop :: "page list \<Rightarrow> frame \<Rightarrow> frame \<times> flow" where
  "pages_loop [] s = (s, Normal)"
| "pages_loop (p # ps) s =
     (let s1 = log_call ExtractText s
      in case p of
           Raises \<Rightarrow> (s1, Raised)
         | Returns None \<Rightarrow> pages_loop ps s1
         | Returns (Some t) \<Rightarrow>
             if t = [] then pages_loop ps s1
             else (let s2 = log_call ExtractText s1
                   in pages_loop ps (s2\<lparr>text_buf := text_buf s2 @ t\<rparr>)))"

text \<open>
  \<^verbatim>\<open>with pdfplumber.open(pdf_path) as pdf:
    for page in pdf.pages: ...\<close>
\<close>

definition read_text_layer :: "libs \<Rightarrow> string \<Rightarrow> frame \<Rightarrow> frame \<times> flow" where
  "read_text_layer L pdf_path s =
     (let s1 = log_call PdfplumberOpen s
      in case pdfplumber_open L pdf_path of
           Raises \<Rightarrow> (s1, Raised)
         | Returns pages \<Rightarrow> pages_loop pages s1)"

text \<open>
  The body of the first \<open>try\<close>: the \<open>with\<close> block, then
  \<^verbatim>\<open>if text.strip(): return text\<close>
\<close>

definition text_layer_stage :: "libs \<Rightarrow> string \<Rightarrow> frame \<Rightarrow> frame \<times> flow" where
  "text_layer_stage L pdf_path s =
     (case read_text_layer L pdf_path s of
        (s1, Normal) \<Rightarrow>
          if strip (text_buf s1) \<noteq> [] then (s1, Returned (text_buf s1)) else (s1, Normal)
      | (s1, f) \<Rightarrow> (s1, f))"

text \<open>
  \<^verbatim>\<open>for img in images:
    text += pytesseract.image_to_string(img)\<close>
\<close>

fun images_loop :: "image list \<Rightarrow> frame \<Rightarrow> frame \<times> flow" where
  "images_loop [] s = (s, Normal)"
| "images_loop (i # is) s =
     (let s1 = log_call ImageToString s
      in case i of
           Raises \<Rightarrow> (s1, Raised)
         | Returns t \<Rightarrow> images_loop is (s1\<lparr>text_buf := text_buf s1 @ t\<rparr>))"

text \<open>
  The body of the second \<open>try\<close>:
  \<^verbatim>\<open>images = convert_from_path(pdf_path)
for img in images: ...\<close>
\<close>

definition ocr_stage :: "libs \<Rightarrow> string \<Rightarrow> frame \<Rightarrow> frame \<times> flow" where
  "ocr_stage L pdf_path s =
     (let s1 = log_call ConvertFromPath s
      in case convert_from_path L pdf_path of
           Raises \<Rightarrow> (s1, Raised)
         | Returns images \<Rightarrow> images_loop images s1)"

text \<open>\<^verbatim>\<open>try: ... except: pass\<close>: a raise in the body becomes a fall-through.\<close>

definition except_pass :: "frame \<times> flow \<Rightarrow> frame \<times> flow" where
  "except_pass r = (case r of (s, Raised) \<Rightarrow> (s, Normal) | (s, f) \<Rightarrow> (s, f))"

text \<open>
  The function: the two \<open>try\<close> statements in sequence, then
  \<^verbatim>\<open>return text.strip()\<close>.  The result is the final frame (for its log) and how the
  function ended.
\<close>

definition extract_text_from_pdf :: "libs \<Rightarrow> string \<Rightarrow> frame \<times> flow" where
  "extract_text_from_pdf L pdf_path =
     (case except_pass (text_layer_stage L pdf_path init_frame) of
        (s1, Normal) \<Rightarrow>
          (case except_pass (ocr_stage L pdf_path s1) of
             (s2, Normal) \<Rightarrow> (s2, Returned (strip (text_buf s2)))
           | (s2, f) \<Rightarrow> (s2, f))
      | (s1, f) \<Rightarrow> (s1, f))"

text \<open>What the OCR stage adds to \<open>text\<close>, started on an empty one.\<close>

definition ocr_text :: "libs \<Rightarrow> string \<Rightarrow> string" where
  "ocr_text L pdf_path = text_buf (fst (ocr_stage L pdf_path init_frame))"

definition ocr_invoked :: "frame \<times> flow \<Rightarrow> bool" where
  "ocr_invoked r = (ConvertFromPath \<in> set (calls (fst r)) \<or> ImageToString \<in> set (calls (fst r)))"

subsection \<open>Example documents\<close>

text \<open>
  A digitally authored resume of three pages (the second has no text), with an OCR
  that would also work; a resume whose second page makes the text layer raise; a file
  neither library can open; and a one-page resume whose text ends with a line feed.
\<close>

definition libs_digital :: libs where
  "libs_digital =
     \<lparr>pdfplumber_open =
        (\<lambda>p. Returns [Returns (Some ''Jane Doe\<newline>''), Returns None, Returns (Some ''Python, AWS'')]),
      convert_from_path = (\<lambda>p. Returns [Returns ''JANE DOE''])\<rparr>"

definition libs_broken_page :: libs where
  "libs_broken_page =
     \<lparr>pdfplumber_open = (\<lambda>p. Returns [Returns (Some ''Jane Doe''), Raises]),
      convert_from_path = (\<lambda>p. Returns [Returns ''Jane Doe\<newline>'', Returns ''Python\<newline>''])\<rparr>"

definition libs_unreadable :: libs where
  "libs_unreadable = \<lparr>pdfplumber_open = (\<lambda>p. Raises), convert_from_path = (\<lambda>p. Raises)\<rparr>"

definition libs_padded :: libs where
  "libs_padded =
     \<lparr>pdfplumber_open = (\<lambda>p. Returns [Returns (Some ''Jane Doe\<newline>'')]),
      convert_from_path = (\<lambda>p. Returns [])\<rparr>"

section \<open>JSON values and json.loads\<close>

text \<open>
  The values \<open>json.loads\<close> builds: \<open>None\<close>, \<open>bool\<close>, \<open>int\<close>, \<open>float\<close>, \<open>str\<close>,
  \<open>list\<close> and \<open>dict\<close>.  A decoded string is a list of code points, since a
  \<open>\uXXXX\<close> escape reaches beyond the characters of the input; \<open>codes\<close> turns a
  literal into one.  A float is kept as the text of its literal (it stands for the
  double Python's \<open>float\<close> makes of that text).  A dict keeps its keys in the order of
  their first insertion.
\<close>

datatype json =
    JNull
  | JBool bool
  | JInt int
  | JFloat string
  | JString "int list"
  | JArray "json list"
  | JObject "(int list \<times> json) list"

definition codes :: "string \<Rightarrow> int list" where
  "codes s = map of_char s"

text \<open>\<open>d[k] = v\<close> on a dict: a key already there keeps its place and takes the new value.\<close>

fun dict_set :: "('k \<times> 'v) list \<Rightarrow> 'k \<Rightarrow> 'v \<Rightarrow> ('k \<times> 'v) list" where
  "dict_set [] k v = [(k, v)]"
| "dict_set ((k', v') # m) k v = (if k' = k then (k, v) # m else (k', v') # dict_set m k v)"

text \<open>
  The exceptions: \<open>ValueError\<close> with its message, \<open>json.JSONDecodeError\<close> (in Python a
  subclass of \<open>ValueError\<close>), the \<open>ValueError\<close> that the conversion of an integer
  literal raises when the literal has more digits than the interpreter allows (here
  \<open>DigitLimitError\<close>), \<open>RecursionError\<close>, and any other exception, by its name.
\<close>

datatype error =
    ValueError string
  | JSONDecodeError
  | DigitLimitError
  | RecursionError
  | OtherError string

definition is_ValueError :: "error \<Rightarrow> bool" where
  "is_ValueError e =
     (case e of
        ValueError m \<Rightarrow> True
      | JSONDecodeError \<Rightarrow> True
      | DigitLimitError \<Rightarrow> True
      | RecursionError \<Rightarrow> False
      | OtherError n \<Rightarrow> False)"

text \<open>
  Two limits of the interpreter bear on \<open>json.loads\<close>; they are parameters.
  \<open>recursion_limit\<close> is the number of containers the decoder can have open, one inside
  the other, before opening one more raises \<open>RecursionError\<close> (it depends on the
  recursion limit and on the depth of the call).  \<open>int_max_str_digits\<close> is
  \<open>sys.get_int_max_str_digits()\<close>: an integer literal with more digits raises
  \<open>ValueError\<close>; 0 switches the limit off.
\<close>

record limits =
  recursion_limit :: nat
  int_max_str_digits :: nat

text \<open>
  \<open>json.loads\<close> is the standard library's, not this repository's.  It is modelled from
  its documented behaviour on a \<open>str\<close>: the grammar of RFC 8259 with Python's
  extensions (\<open>NaN\<close>, \<open>Infinity\<close> and \<open>-Infinity\<close> are accepted), whitespace being
  space, tab, line feed and carriage return, control characters refused inside strings,
  a pair of surrogate escapes joined into one code point, the last of several equal
  keys winning, and the two limits above.  The model has a lexer and a parser: \<open>lex\<close>
  cuts the text into tokens up to its first lexical error, \<open>run\<close> consumes the tokens
  in order with a stack of open containers and stops at the first error, so that the
  exception is the one the library meets first when it reads the text from left to
  right.
\<close>

datatype token =
    TLBrace | TRBrace | TLBracket | TRBracket | TColon | TComma
  | TString "int list"
  | TWord string

definition is_digit :: "char \<Rightarrow> bool" where
  "is_digit c = (48 \<le> (of_char c :: int) \<and> (of_char c :: int) \<le> 57)"

definition digit_value :: "char \<Rightarrow> int" where
  "digit_value c = of_char c - 48"

definition digits_value :: "string \<Rightarrow> int" where
  "digits_value ds = foldl (\<lambda>n c. 10 * n + digit_value c) 0 ds"

text \<open>
  What may follow the integer part of a number: a fraction \<open>.digits\<close>, then an exponent
  \<open>e\<close> or \<open>E\<close>, an optional sign, and digits.
\<close>

definition number_tail :: "string \<Rightarrow> bool" where
  "number_tail r =
     (let has_frac = (r \<noteq> [] \<and> hd r = CHR ''.'');
          frac = (if has_frac then takeWhile is_digit (tl r) else []);
          r2 = (if has_frac then dropWhile is_digit (tl r) else r);
          e = (if r2 = [] then [] else tl r2);
          ds = (if e \<noteq> [] \<and> (hd e = CHR ''+'' \<or> hd e = CHR ''-'') then tl e else e)
      in (if has_frac then frac \<noteq> [] else True)
         \<and> (if r2 = [] then True
            else (hd r2 = CHR ''e'' \<or> hd r2 = CHR ''E'') \<and> ds \<noteq> [] \<and> list_all is_digit ds))"

text \<open>
  A number literal: an optional minus, then \<open>0\<close> or a digit string without a leading
  zero, then the tail.  Without a tail it is an \<open>int\<close>, with one a \<open>float\<close>.
\<close>

definition number :: "string \<Rightarrow> json option" where
  "number s =
     (let neg = (s \<noteq> [] \<and> hd s = CHR ''-'');
          s1 = (if neg then tl s else s);
          ip = takeWhile is_digit s1;
          r = dropWhile is_digit s1
      in if ip = [] \<or> (hd ip = CHR ''0'' \<and> tl ip \<noteq> []) then None
         else if r = [] then Some (JInt (if neg then - digits_value ip else digits_value ip))
         else if number_tail r then Some (JFloat s)
         else None)"

definition scalar :: "string \<Rightarrow> json option" where
  "scalar w =
     (if w = ''null'' then Some JNull
      else if w = ''true'' then Some (JBool True)
      else if w = ''false'' then Some (JBool False)
      else if w = ''NaN'' \<or> w = ''Infinity'' \<or> w = ''-Infinity'' then Some (JFloat w)
      else number w)"

text \<open>
  The decoder matches the longest number at the start of a bare word and converts it
  before it looks at what follows.  The match is a float when a fraction (a dot and a
  digit) or an exponent (\<open>e\<close> or \<open>E\<close>, an optional sign, a digit) follows the integer
  part; otherwise it is an integer, and its conversion raises when the integer part has
  more digits than \<open>int_max_str_digits\<close>.  An integer part that starts with \<open>0\<close> is
  that one digit.
\<close>

definition float_follows :: "string \<Rightarrow> bool" where
  "float_follows r =
     (case r of
        [] \<Rightarrow> False
      | c # r1 \<Rightarrow>
          if c = CHR ''.'' then r1 \<noteq> [] \<and> is_digit (hd r1)
          else if c = CHR ''e'' \<or> c = CHR ''E'' then
            (let r2 = (if r1 \<noteq> [] \<and> (hd r1 = CHR ''+'' \<or> hd r1 = CHR ''-'') then tl r1 else r1)
             in r2 \<noteq> [] \<and> is_digit (hd r2))
          else False)"

definition int_too_long :: "limits \<Rightarrow> string \<Rightarrow> bool" where
  "int_too_long L w =
     (let s1 = (if w \<noteq> [] \<and> hd w = CHR ''-'' then tl w else w);
          ip = takeWhile is_digit s1;
          r = dropWhile is_digit s1
      in ip \<noteq> [] \<and> hd ip \<noteq> CHR ''0'' \<and> \<not> float_follows r
         \<and> 0 < int_max_str_digits L \<and> int_max_str_digits L < length ip)"

text \<open>The value of a bare word, where a value is expected.\<close>

definition word_value :: "limits \<Rightarrow> string \<Rightarrow> error + json" where
  "word_value L w =
     (if int_too_long L w then Inl DigitLimitError
      else case scalar w of
             Some v \<Rightarrow> Inr v
           | None \<Rightarrow> Inl JSONDecodeError)"

definition json_space :: "char \<Rightarrow> bool" where
  "json_space c = (c = CHR '' '' \<or> c = CHR 0x09 \<or> c = CHR 0x0A \<or> c = CHR 0x0D)"

definition punct :: "char \<Rightarrow> token option" where
  "punct c =
     (if c = CHR ''{'' then Some TLBrace
      else if c = CHR ''}'' then Some TRBrace
      else if c = CHR ''['' then Some TLBracket
      else if c = CHR '']'' then Some TRBracket
      else if c = CHR '':'' then Some TColon
      else if c = CHR '','' then Some TComma
      else None)"

text \<open>The character after a backslash, other than \<open>u\<close>, and what it stands for.\<close>

definition escape :: "char \<Rightarrow> int option" where
  "escape c =
     (if c = CHR 0x22 then Some 34
      else if c = CHR 0x5C then Some 92
      else if c = CHR ''/'' then Some 47
      else if c = CHR ''b'' then Some 8
      else if c = CHR ''f'' then Some 12
      else if c = CHR ''n'' then Some 10
      else if c = CHR ''r'' then Some 13
      else if c = CHR ''t'' then Some 9
      else None)"

definition hex_digit :: "char \<Rightarrow> int option" where
  "hex_digit c =
     (let n = (of_char c :: int)
      in if 48 \<le> n \<and> n \<le> 57 then Some (n - 48)
         else if 97 \<le> n \<and> n \<le> 102 then Some (n - 87)
         else if 65 \<le> n \<and> n \<le> 70 then Some (n - 55)
         else None)"

text \<open>
  Appends the code unit of a \<open>\uXXXX\<close> escape to the (reversed) string read so far:
  a low surrogate right after a high one joins it.
\<close>

definition push_unit :: "int \<Rightarrow> int list \<Rightarrow> int list" where
  "push_unit u acc =
     (case acc of
        h # rest \<Rightarrow>
          if 0xD800 \<le> h \<and> h \<le> 0xDBFF \<and> 0xDC00 \<le> u \<and> u \<le> 0xDFFF
          then (0x10000 + (h - 0xD800) * 0x400 + (u - 0xDC00)) # rest
          else u # acc
      | [] \<Rightarrow> [u])"

text \<open>
  Where the lexer stands: between tokens, inside a bare word (a number or a name, read
  up to the next whitespace, quote or punctuation), inside a string, after a backslash,
  or inside the four hex digits of a \<open>\u\<close> escape.  Accumulators are reversed.  The
  result is the tokens read and whether the text was read to its end: \<open>False\<close> is a
  lexical error (an unterminated string, a control character or a bad escape in one)
  after these tokens.
\<close>

datatype mode =
    Idle
  | Word string
  | Str "int list"
  | Esc "int list"
  | Uni "int list" nat int

definition emit :: "token \<Rightarrow> token list \<times> bool \<Rightarrow> token list \<times> bool" where
  "emit t r = (t # fst r, snd r)"

fun lex :: "mode \<Rightarrow> string \<Rightarrow> token list \<times> bool" where
  "lex Idle [] = ([], True)"
| "lex (Word w) [] = ([TWord (rev w)], True)"
| "lex (Str a) [] = ([], False)"
| "lex (Esc a) [] = ([], False)"
| "lex (Uni a k v) [] = ([], False)"
| "lex Idle (c # cs) =
     (if json_space c then lex Idle cs
      else if c = CHR 0x22 then lex (Str []) cs
      else case punct c of
             Some t \<Rightarrow> emit t (lex Idle cs)
           | None \<Rightarrow> lex (Word [c]) cs)"
| "lex (Word w) (c # cs) =
     (if json_space c then emit (TWord (rev w)) (lex Idle cs)
      else if c = CHR 0x22 then emit (TWord (rev w)) (lex (Str []) cs)
      else case punct c of
             Some t \<Rightarrow> emit (TWord (rev w)) (emit t (lex Idle cs))
           | None \<Rightarrow> lex (Word (c # w)) cs)"
| "lex (Str a) (c # cs) =
     (if c = CHR 0x22 then emit (TString (rev a)) (lex Idle cs)
      else if c = CHR 0x5C then lex (Esc a) cs
      else if (of_char c :: int) < 32 then ([], False)
      else lex (Str (of_char c # a)) cs)"
| "lex (Esc a) (c # cs) =
     (if c = CHR ''u'' then lex (Uni a 0 0) cs
      else case escape c of
             Some n \<Rightarrow> lex (Str (n # a)) cs
           | None \<Rightarrow> ([], False))"
| "lex (Uni a k v) (c # cs) =
     (case hex_digit c of
        None \<Rightarrow> ([], False)
      | Some d \<Rightarrow>
          if k = 3 then lex (Str (push_unit (16 * v + d) a)) cs
          else lex (Uni a (k + 1) (16 * v + d)) cs)"

text \<open>
  The open containers, innermost first: an array with its elements so far, an object
  waiting for a key, an object holding a key and waiting for its value.  \<open>expect\<close> is
  what the next token may be.  A token that may not come raises \<open>JSONDecodeError\<close>.
\<close>

datatype ctx =
    CArr "json list"
  | CObj "(int list \<times> json) list"
  | CKey "(int list \<times> json) list" "int list"

datatype expect =
    Value | FirstElem | AfterElem | FirstKey | Key | Colon | AfterMember | Done json

fun deliver :: "json \<Rightarrow> ctx list \<Rightarrow> error + (ctx list \<times> expect)" where
  "deliver v [] = Inr ([], Done v)"
| "deliver v (CArr xs # st) = Inr (CArr (xs @ [v]) # st, AfterElem)"
| "deliver v (CKey m k # st) = Inr (CObj (dict_set m k v) # st, AfterMember)"
| "deliver v (CObj m # st) = Inl JSONDecodeError"

fun close_array :: "ctx list \<Rightarrow> error + (ctx list \<times> expect)" where
  "close_array (CArr xs # st) = deliver (JArray xs) st"
| "close_array st = Inl JSONDecodeError"

fun close_object :: "ctx list \<Rightarrow> error + (ctx list \<times> expect)" where
  "close_object (CObj m # st) = deliver (JObject m) st"
| "close_object st = Inl JSONDecodeError"

fun open_key :: "int list \<Rightarrow> ctx list \<Rightarrow> error + (ctx list \<times> expect)" where
  "open_key k (CObj m # st) = Inr (CKey m k # st, Colon)"
| "open_key k st = Inl JSONDecodeError"

text \<open>
  A token where a value is expected (\<open>first\<close>: right after an opening bracket, where the
  closing one may come too).  Opening a container inside \<open>recursion_limit\<close> open ones
  raises \<open>RecursionError\<close>.
\<close>

fun step_value :: "limits \<Rightarrow> bool \<Rightarrow> ctx list \<Rightarrow> token \<Rightarrow> error + (ctx list \<times> expect)" where
  "step_value L first st (TWord w) =
     (case word_value L w of Inl e \<Rightarrow> Inl e | Inr v \<Rightarrow> deliver v st)"
| "step_value L first st (TString s) = deliver (JString s) st"
| "step_value L first st TLBracket =
     (if recursion_limit L \<le> length st then Inl RecursionError
      else Inr (CArr [] # st, FirstElem))"
| "step_value L first st TLBrace =
     (if recursion_limit L \<le> length st then Inl RecursionError
      else Inr (CObj [] # st, FirstKey))"
| "step_value L first st TRBracket = (if first then close_array st else Inl JSONDecodeError)"
| "step_value L first st t = Inl JSONDecodeError"

fun step :: "limits \<Rightarrow> ctx list \<times> expect \<Rightarrow> token \<Rightarrow> error + (ctx list \<times> expect)" where
  "step L (st, Value) t = step_value L False st t"
| "step L (st, FirstElem) t = step_value L True st t"
| "step L (st, AfterElem) t =
     (case t of
        TComma \<Rightarrow> Inr (st, Value)
      | TRBracket \<Rightarrow> close_array st
      | _ \<Rightarrow> Inl JSONDecodeError)"
| "step L (st, FirstKey) t =
     (case t of
        TString k \<Rightarrow> open_key k st
      | TRBrace \<Rightarrow> close_object st
      | _ \<Rightarrow> Inl JSONDecodeError)"
| "step L (st, Key) t = (case t of TString k \<Rightarrow> open_key k st | _ \<Rightarrow> Inl JSONDecodeError)"
| "step L (st, Colon) t = (case t of TColon \<Rightarrow> Inr (st, Value) | _ \<Rightarrow> Inl JSONDecodeError)"
| "step L (st, AfterMember) t =
     (case t of
        TComma \<Rightarrow> Inr (st, Key)
      | TRBrace \<Rightarrow> close_object st
      | _ \<Rightarrow> Inl JSONDecodeError)"
| "step L (st, Done v) t = Inl JSONDecodeError"

text \<open>
  The tokens in order; at their end, the lexical error if there is one, else the value
  if it is complete.
\<close>

fun run :: "limits \<Rightarrow> ctx list \<times> expect \<Rightarrow> token list \<Rightarrow> bool \<Rightarrow> error + json" where
  "run L (st, e) [] ok =
     (if ok then (case e of Done v \<Rightarrow> Inr v | _ \<Rightarrow> Inl JSONDecodeError)
      else Inl JSONDecodeError)"
| "run L s (t # ts) ok = (case step L s t of Inl e \<Rightarrow> Inl e | Inr s' \<Rightarrow> run L s' ts ok)"

definition json_loads :: "limits \<Rightarrow> string \<Rightarrow> error + json" where
  "json_loads L s = (case lex Idle s of (ts, ok) \<Rightarrow> run L ([], Value) ts ok)"

section \<open>analyze_resume\<close>

text \<open>
  The prompt is an f-string: fixed text around \<open>resume_text\<close> and around
  \<^verbatim>\<open>job_description if job_description else "Not provided"\<close>.  In Python \<open>None\<close>
  and the empty string are falsy, every other string is truthy.  \<open>lines_text\<close> ends
  each line with a line feed.
\<close>

definition lines_text :: "string list \<Rightarrow> string" where
  "lines_text ls = concat (map (\<lambda>l. l @ [CHR 0x0A]) ls)"

definition prompt_head :: string where
  \<open>prompt_head = lines_text
     ['''',
      ''    You are an AI hiring assistant. Compare the following RESUME with the JOB DESCRIPTION.'',
      ''    Score the candidate using strict, realistic hiring criteria.'',
      '''',
      ''    Produce a STRICT JSON OUTPUT in the following structure:'',
      '''',
      ''    {'',
      ''      "overall_match_score": number (0-100),'',
      ''      "skill_match_score": number (0-100),'',
      ''      "experience_match_score": number (0-100),'',
      ''      "degree_match": "match" | "partial" | "no match",'',
      ''      "requirement_coverage": {'',
      ''          "met": [list],'',
      ''          "missing": [list]'',
      ''      },'',
      ''      "strengths": [list],'',
      ''      "weaknesses": [list],'',
      ''      "final_decision": "Shortlist" | "Do Not Shortlist",'',
      ''      "explanation": "short paragraph explaining decision"'',
      ''    }'',
      ''    Resume:'']\<close>

definition job_description_slot :: "string option \<Rightarrow> string" where
  "job_description_slot job_description =
     (case job_description of
        None \<Rightarrow> ''Not provided''
      | Some jd \<Rightarrow> if jd \<noteq> [] then jd else ''Not provided'')"

definition prompt :: "string \<Rightarrow> string option \<Rightarrow> string" where
  "prompt resume_text job_description =
     prompt_head
     @ lines_text [''    '' @ resume_text, '''', ''    Job Description:'',
                   ''    '' @ job_description_slot job_description]
     @ ''    ''"

text \<open>
  \<^verbatim>\<open>re.search(r"\{[\s\S]*\}", response.text)\<close> and the match's \<open>group()\<close>: the
  leftmost match starts at the first \<open>{\<close> (a later start is tried only where an earlier one
  fails, and the first one fails only if no \<open>}\<close> follows it), and the greedy star runs
  to the last \<open>}\<close>.  \<open>None\<close> is no match.
\<close>

definition json_match :: "string \<Rightarrow> string option" where
  "json_match s =
     (let tail = dropWhile (\<lambda>c. c \<noteq> CHR ''{'') s
      in if CHR ''}'' \<in> set tail
         then Some (rev (dropWhile (\<lambda>c. c \<noteq> CHR ''}'') (rev tail)))
         else None)"

text \<open>
  The parsing step:
  \<^verbatim>\<open>try:
    result = json.loads(response.text)
except:
    json_match = re.search(r"\{[\s\S]*\}", response.text)
    if json_match:
        result = json.loads(json_match.group())
    else:
        raise ValueError("Model did not return valid JSON.")
return result\<close>

  The bare \<open>except\<close> catches whatever the first \<open>json.loads\<close> raises.  The second
  \<open>json.loads\<close> stands in the handler, outside any \<open>try\<close>: whatever it raises leaves
  the function.
\<close>

definition parse_response :: "limits \<Rightarrow> string \<Rightarrow> error + json" where
  "parse_response L response_text =
     (case json_loads L response_text of
        Inr result \<Rightarrow> Inr result
      | Inl e \<Rightarrow>
          (case json_match response_text of
             Some m \<Rightarrow> json_loads L m
           | None \<Rightarrow> Inl (ValueError ''Model did not return valid JSON.'')))"

text \<open>
  The model service is a parameter: \<open>generate_content\<close> takes the prompt and raises or
  returns the text of the response.  An exception of the service leaves the function.
\<close>

definition analyze_resume ::
  "limits \<Rightarrow> (string \<Rightarrow> error + string) \<Rightarrow> string \<Rightarrow> string option \<Rightarrow> error + json" where
  "analyze_resume L generate_content resume_text job_description =
     (case generate_content (prompt resume_text job_description) of
        Inl e \<Rightarrow> Inl e
      | Inr response_text \<Rightarrow> parse_response L response_text)"

subsection \<open>The invariants of a MatchResult\<close>

text \<open>
  The specification's data model gives a MatchResult these invariants: three integer
  scores in 0 to 100, \<open>degree_match\<close> and \<open>final_decision\<close> out of their enumerations,
  \<open>requirement_coverage\<close> a pair of string lists \<open>met\<close> and \<open>missing\<close>, \<open>strengths\<close> and
  \<open>weaknesses\<close> string lists, \<open>explanation\<close> a string.  \<open>valid_match_result\<close> follows
  those words; the source has no counterpart of it.
\<close>

definition is_object :: "json \<Rightarrow> bool" where
  "is_object v = (case v of JObject m \<Rightarrow> True | _ \<Rightarrow> False)"

definition is_score :: "json \<Rightarrow> bool" where
  "is_score v = (case v of JInt n \<Rightarrow> 0 \<le> n \<and> n \<le> 100 | _ \<Rightarrow> False)"

definition is_string :: "json \<Rightarrow> bool" where
  "is_string v = (case v of JString s \<Rightarrow> True | _ \<Rightarrow> False)"

definition is_string_list :: "json \<Rightarrow> bool" where
  "is_string_list v = (case v of JArray xs \<Rightarrow> list_all is_string xs | _ \<Rightarrow> False)"

definition is_one_of :: "string list \<Rightarrow> json \<Rightarrow> bool" where
  "is_one_of names v = (case v of JString s \<Rightarrow> List.member (map codes names) s | _ \<Rightarrow> False)"

definition field_is :: "(int list \<times> json) list \<Rightarrow> string \<Rightarrow> (json \<Rightarrow> bool) \<Rightarrow> bool" where
  "field_is m name P = (case map_of m (codes name) of Some v \<Rightarrow> P v | None \<Rightarrow> False)"

definition is_coverage :: "json \<Rightarrow> bool" where
  "is_coverage v =
     (case v of
        JObject m \<Rightarrow> field_is m ''met'' is_string_list \<and> field_is m ''missing'' is_string_list
      | _ \<Rightarrow> False)"

definition valid_match_result :: "json \<Rightarrow> bool" where
  "valid_match_result v =
     (case v of
        JObject m \<Rightarrow>
          field_is m ''overall_match_score'' is_score
          \<and> field_is m ''skill_match_score'' is_score
          \<and> field_is m ''experience_match_score'' is_score
          \<and> field_is m ''degree_match'' (is_one_of [''match'', ''partial'', ''no match''])
          \<and> field_is m ''requirement_coverage'' is_coverage
          \<and> field_is m ''strengths'' is_string_list
          \<and> field_is m ''weaknesses'' is_string_list
          \<and> field_is m ''final_decision'' (is_one_of [''Shortlist'', ''Do Not Shortlist''])
          \<and> field_is m ''explanation'' is_string
      | _ \<Rightarrow> False)"

subsection \<open>Example replies\<close>

text \<open>A model service that answers every prompt with the same text.\<close>

definition replies :: "string \<Rightarrow> string \<Rightarrow> error + string" where
  "replies response_text p = Inr response_text"

definition reply_bare :: string where
  \<open>reply_bare = ''{"overall_match_score":72,"final_decision":"Shortlist"}''\<close>

definition reply_in_prose :: string where
  \<open>reply_in_prose = ''Here is the result:\<newline>'' @ reply_bare @ ''\<newline>Thanks.''\<close>

definition reply_braces_in_prose :: string where
  \<open>reply_braces_in_prose = ''Result {draft}: '' @ reply_bare\<close>

definition reply_in_brackets :: string where
  \<open>reply_in_brackets = ''['' @ reply_bare @ '']''\<close>

definition reply_refusal :: string where
  "reply_refusal = ''I cannot process this.''"

definition reply_quoted_refusal :: string where
  \<open>reply_quoted_refusal = ''"I cannot process this."''\<close>

definition reply_out_of_range :: string where
  \<open>reply_out_of_range =
     ''{"overall_match_score": 250, "skill_match_score": "high", "degree_match": "maybe", "final_decision": "Hire"}''\<close>

definition reply_fenced_out_of_range :: string where
  \<open>reply_fenced_out_of_range = ''```json\<newline>{"overall_match_score": -5}\<newline>```''\<close>

text \<open>
  Limits of the usual order (the default recursion limit is 1000, the default digit
  limit 4300); an interpreter with little room left for recursion; and a reply whose
  brace-delimited text nests three arrays in an object.
\<close>

definition usual_limits :: limits where
  "usual_limits = \<lparr>recursion_limit = 1000, int_max_str_digits = 4300\<rparr>"

definition shallow_limits :: limits where
  "shallow_limits = \<lparr>recursion_limit = 3, int_max_str_digits = 4300\<rparr>"

definition reply_nested :: string where
  \<open>reply_nested = ''Result: {"a": [[[1]]]}''\<close>

section \<open>Properties of extract_text_from_pdf\<close>

subsection \<open>Auxiliary facts\<close>

lemma dropWhile_all_Nil: "list_all P (dropWhile P xs) \<Longrightarrow> dropWhile P xs = []"
  using hd_dropWhile [of P xs] by (cases "dropWhile P xs") auto

lemma strip_Nil_iff: "strip s = [] \<longleftrightarrow> list_all isspace s"
proof
  assume "strip s = []"
  then have "list_all isspace (dropWhile isspace s)"
    by (simp add: strip_def rstrip_def lstrip_def dropWhile_eq_Nil_conv list_all_iff)
  then have "dropWhile isspace s = []" by (rule dropWhile_all_Nil)
  then show "list_all isspace s" by (simp add: dropWhile_eq_Nil_conv list_all_iff)
next
  assume "list_all isspace s"
  then show "strip s = []"
    by (auto simp: strip_def rstrip_def lstrip_def list_all_iff dest: set_dropWhileD)
qed

lemma strip_append_Nil: "strip a = [] \<Longrightarrow> strip b = [] \<Longrightarrow> strip (a @ b) = []"
  by (simp add: strip_Nil_iff)

lemma rstrip_prefix: "\<exists>zs. xs = rstrip xs @ zs"
proof -
  have "rev (takeWhile isspace (rev xs) @ dropWhile isspace (rev xs)) = rev (rev xs)"
    by (simp only: takeWhile_dropWhile_id)
  then have "xs = rstrip xs @ rev (takeWhile isspace (rev xs))"
    by (simp only: rev_append rev_rev_ident rstrip_def)
  then show ?thesis ..
qed

lemma strip_idem: "strip (strip s) = strip s"
proof -
  let ?t = "dropWhile isspace s"
  let ?u = "rstrip ?t"
  have u: "strip s = ?u" by (simp add: strip_def lstrip_def)
  have l: "dropWhile isspace ?u = ?u"
  proof (cases "?u = []")
    case True
    then show ?thesis by simp
  next
    case False
    obtain zs where z: "?t = ?u @ zs" using rstrip_prefix [of ?t] by blast
    with False have "hd ?u = hd ?t" by (metis hd_append2)
    moreover from z False have "?t \<noteq> []" by (metis append_is_Nil_conv)
    ultimately have "\<not> isspace (hd ?u)" using hd_dropWhile [of isspace s] by simp
    with False show ?thesis by (cases ?u) auto
  qed
  have r: "rstrip ?u = ?u" by (simp add: rstrip_def)
  show ?thesis unfolding u by (simp add: strip_def lstrip_def l r)
qed

lemma pages_loop_flow: "snd (pages_loop ps s) \<noteq> Returned t"
  by (induction ps arbitrary: s) (auto simp: Let_def split: outcome.splits option.splits)

lemma pages_loop_calls:
  "c \<in> set (calls (fst (pages_loop ps s))) \<Longrightarrow> c \<noteq> ExtractText \<Longrightarrow> c \<in> set (calls s)"
proof (induction ps arbitrary: s)
  case Nil
  then show ?case by simp
next
  case (Cons p ps)
  show ?case
  proof (cases p)
    case Raises
    with Cons.prems show ?thesis by (simp add: log_call_def)
  next
    case (Returns r)
    show ?thesis
    proof (cases "r = None \<or> r = Some []")
      case True
      with Returns Cons.prems have "c \<in> set (calls (fst (pages_loop ps (log_call ExtractText s))))"
        by (auto simp: Let_def)
      from Cons.IH [OF this Cons.prems(2)] Cons.prems(2) show ?thesis by (simp add: log_call_def)
    next
      case False
      then obtain t where t: "r = Some t" "t \<noteq> []" by (cases r) auto
      with Returns Cons.prems
      have "c \<in> set (calls (fst (pages_loop ps
               (log_call ExtractText (log_call ExtractText s)
                  \<lparr>text_buf := text_buf (log_call ExtractText (log_call ExtractText s)) @ t\<rparr>))))"
        by (simp add: Let_def)
      from Cons.IH [OF this Cons.prems(2)] Cons.prems(2) show ?thesis by (simp add: log_call_def)
    qed
  qed
qed

lemma images_loop_flow: "snd (images_loop is s) \<noteq> Returned t"
  by (induction "is" arbitrary: s) (auto simp: Let_def split: outcome.splits)

text \<open>The loop over the images appends to \<open>text\<close>: what it adds does not depend on what is there.\<close>

lemma images_loop_text:
  "text_buf (fst (images_loop is s)) = text_buf s @ text_buf (fst (images_loop is init_frame))"
proof (induction "is" arbitrary: s)
  case Nil
  show ?case by (simp add: init_frame_def)
next
  case (Cons i "is")
  show ?case
  proof (cases i)
    case Raises
    then show ?thesis by (simp add: log_call_def init_frame_def)
  next
    case (Returns t)
    have a: "text_buf (fst (images_loop is
                 (log_call ImageToString s\<lparr>text_buf := text_buf (log_call ImageToString s) @ t\<rparr>)))
        = (text_buf s @ t) @ text_buf (fst (images_loop is init_frame))"
      by (subst Cons.IH) (simp add: log_call_def)
    have b: "text_buf (fst (images_loop is
                 (log_call ImageToString init_frame
                    \<lparr>text_buf := text_buf (log_call ImageToString init_frame) @ t\<rparr>)))
        = t @ text_buf (fst (images_loop is init_frame))"
      by (subst Cons.IH) (simp add: log_call_def init_frame_def)
    show ?thesis using Returns a b by (simp add: Let_def)
  qed
qed

lemma images_loop_calls: "c \<in> set (calls s) \<Longrightarrow> c \<in> set (calls (fst (images_loop is s)))"
proof (induction "is" arbitrary: s)
  case Nil
  then show ?case by simp
next
  case (Cons i "is")
  show ?case
  proof (cases i)
    case Raises
    then show ?thesis using Cons.prems by (simp add: log_call_def)
  next
    case (Returns t)
    have "c \<in> set (calls (log_call ImageToString s\<lparr>text_buf := text_buf (log_call ImageToString s) @ t\<rparr>))"
      using Cons.prems by (simp add: log_call_def)
    from Cons.IH [OF this] Returns show ?thesis by (simp add: Let_def)
  qed
qed

lemma ocr_stage_flow: "snd (ocr_stage L p s) \<noteq> Returned t"
  by (auto simp: ocr_stage_def Let_def images_loop_flow split: outcome.splits)

lemma ocr_stage_text: "text_buf (fst (ocr_stage L p s)) = text_buf s @ ocr_text L p"
  unfolding ocr_text_def ocr_stage_def Let_def
  by (cases "convert_from_path L p")
     (simp_all add: log_call_def init_frame_def
        images_loop_text [of _ "s\<lparr>calls := calls s @ [ConvertFromPath]\<rparr>"]
        images_loop_text [of _ "\<lparr>text_buf = [], calls = [ConvertFromPath]\<rparr>"])

lemma ocr_stage_calls: "ConvertFromPath \<in> set (calls (fst (ocr_stage L p s)))"
proof (cases "convert_from_path L p")
  case Raises
  then show ?thesis by (simp add: ocr_stage_def log_call_def)
next
  case (Returns imgs)
  have "ConvertFromPath \<in> set (calls (log_call ConvertFromPath s))" by (simp add: log_call_def)
  from images_loop_calls [OF this, of imgs] Returns
  show ?thesis by (simp add: ocr_stage_def Let_def)
qed

lemma read_text_layer_flow: "snd (read_text_layer L p s) \<noteq> Returned t"
  by (auto simp: read_text_layer_def Let_def pages_loop_flow split: outcome.splits)

lemma read_text_layer_calls:
  "set (calls (fst (read_text_layer L p init_frame))) \<subseteq> {PdfplumberOpen, ExtractText}"
proof (cases "pdfplumber_open L p")
  case Raises
  then show ?thesis by (simp add: read_text_layer_def log_call_def init_frame_def)
next
  case (Returns pages)
  have "c = PdfplumberOpen \<or> c = ExtractText"
    if "c \<in> set (calls (fst (pages_loop pages (log_call PdfplumberOpen init_frame))))" for c
    using pages_loop_calls [OF that] by (auto simp: log_call_def init_frame_def)
  with Returns show ?thesis by (auto simp: read_text_layer_def Let_def)
qed

text \<open>
  The function in one equation, from what the \<open>with\<close> block leaves: either the text
  layer's text as it is, or the stripped text after the OCR stage has appended to it.
\<close>

lemma extract_text_from_pdf_eq:
  assumes "read_text_layer L p init_frame = (s1, f1)"
  shows "extract_text_from_pdf L p =
     (if f1 = Normal \<and> strip (text_buf s1) \<noteq> [] then (s1, Returned (text_buf s1))
      else (fst (ocr_stage L p s1), Returned (strip (text_buf s1 @ ocr_text L p))))"
proof -
  obtain s2 f2 where o: "ocr_stage L p s1 = (s2, f2)" by (cases "ocr_stage L p s1")
  have f1: "f1 = Normal \<or> f1 = Raised"
    using read_text_layer_flow [of L p init_frame] assms by (cases f1) auto
  have f2: "f2 = Normal \<or> f2 = Raised"
    using ocr_stage_flow [of L p s1] o by (cases f2) auto
  have t: "text_buf s2 = text_buf s1 @ ocr_text L p"
    using ocr_stage_text [of L p s1] o by simp
  show ?thesis
    using assms o f1 f2 t
    by (auto simp: extract_text_from_pdf_def text_layer_stage_def except_pass_def)
qed

text \<open>On the path through the OCR stage the string returned is stripped.\<close>

lemma ocr_path_return_trimmed:
  assumes "read_text_layer L pdf_path init_frame = (s1, f1)"
    and "f1 = Raised \<or> strip (text_buf s1) = []"
  shows "\<exists>r. snd (extract_text_from_pdf L pdf_path) = Returned r \<and> strip r = r"
  using assms(2) by (auto simp: extract_text_from_pdf_eq [OF assms(1)] strip_idem)

lemmas run_defs = extract_text_from_pdf_def text_layer_stage_def read_text_layer_def
  ocr_stage_def except_pass_def log_call_def init_frame_def ocr_text_def ocr_invoked_def
  strip_def lstrip_def rstrip_def isspace_def Let_def

subsection \<open>The text layer gates the OCR stage\<close>

text \<open>
  Claim C3, as amended.  Let the \<open>with\<close> block of the text-layer stage leave the frame
  \<open>s1\<close> and end with \<open>f1\<close>.  If it ends normally and its text is non-empty after
  stripping, the function returns that text as it is, in that frame, and neither
  \<open>convert_from_path\<close> nor \<open>image_to_string\<close> is ever called.  The OCR stage is invoked
  exactly when the text-layer stage raised or left a text that is empty after stripping.
\<close>

theorem text_layer_gates_ocr:
  assumes "read_text_layer L pdf_path init_frame = (s1, f1)"
  shows "(f1 = Normal \<and> strip (text_buf s1) \<noteq> [] \<longrightarrow>
            extract_text_from_pdf L pdf_path = (s1, Returned (text_buf s1))
            \<and> \<not> ocr_invoked (extract_text_from_pdf L pdf_path))
         \<and> (ocr_invoked (extract_text_from_pdf L pdf_path)
              \<longleftrightarrow> f1 = Raised \<or> strip (text_buf s1) = [])"
proof -
  have f1: "f1 = Normal \<or> f1 = Raised"
    using read_text_layer_flow [of L pdf_path init_frame] assms by (cases f1) auto
  have quiet: "\<not> ocr_invoked (s1, f)" for f
    using read_text_layer_calls [of L pdf_path] assms by (auto simp: ocr_invoked_def)
  have loud: "ocr_invoked (fst (ocr_stage L pdf_path s1), f)" for f
    using ocr_stage_calls [of L pdf_path s1] by (simp add: ocr_invoked_def)
  show ?thesis
    using f1 quiet loud by (auto simp: extract_text_from_pdf_eq [OF assms])
qed

theorem text_layer_gates_ocr_witness:
  "read_text_layer libs_digital ''cv.pdf'' init_frame =
     (\<lparr>text_buf = ''Jane Doe\<newline>Python, AWS'',
       calls = [PdfplumberOpen, ExtractText, ExtractText, ExtractText, ExtractText, ExtractText]\<rparr>,
      Normal)
   \<and> strip ''Jane Doe\<newline>Python, AWS'' \<noteq> []
   \<and> snd (extract_text_from_pdf libs_digital ''cv.pdf'') = Returned ''Jane Doe\<newline>Python, AWS''
   \<and> \<not> ocr_invoked (extract_text_from_pdf libs_digital ''cv.pdf'')"
proof -
  have h: "read_text_layer libs_digital ''cv.pdf'' init_frame =
     (\<lparr>text_buf = ''Jane Doe\<newline>Python, AWS'',
       calls = [PdfplumberOpen, ExtractText, ExtractText, ExtractText, ExtractText, ExtractText]\<rparr>,
      Normal)"
    by (simp add: libs_digital_def run_defs)
  have n: "strip ''Jane Doe\<newline>Python, AWS'' \<noteq> []"
    by (simp add: run_defs)
  from text_layer_gates_ocr [OF h] n
  have "extract_text_from_pdf libs_digital ''cv.pdf''
          = (\<lparr>text_buf = ''Jane Doe\<newline>Python, AWS'',
              calls = [PdfplumberOpen, ExtractText, ExtractText, ExtractText, ExtractText, ExtractText]\<rparr>,
             Returned ''Jane Doe\<newline>Python, AWS'')"
    and "\<not> ocr_invoked (extract_text_from_pdf libs_digital ''cv.pdf'')"
    by auto
  with h n show ?thesis by simp
qed

text \<open>
  The claim as first stated fails where the text layer raises after a page has given
  text: that text is non-empty after stripping, yet the OCR stage runs and the result is
  not the text layer's text.
\<close>

theorem ocr_after_text_counterexample:
  "text_buf (fst (read_text_layer libs_broken_page ''cv.pdf'' init_frame)) = ''Jane Doe''
   \<and> strip ''Jane Doe'' = ''Jane Doe''
   \<and> ocr_invoked (extract_text_from_pdf libs_broken_page ''cv.pdf'')
   \<and> snd (extract_text_from_pdf libs_broken_page ''cv.pdf'') = Returned ''Jane DoeJane Doe\<newline>Python''"
  by (simp add: libs_broken_page_def run_defs)

subsection \<open>No exception leaves the function\<close>

text \<open>
  Claim C4.  For every behaviour of the libraries and every path the function ends by
  returning a string: no raise of the text-layer stage or of the OCR stage leaves it.
  When neither stage has put anything but whitespace into \<open>text\<close>, the string returned
  is the empty one.
\<close>

theorem extract_never_raises:
  "(\<exists>s r. extract_text_from_pdf L pdf_path = (s, Returned r))
   \<and> (strip (text_buf (fst (read_text_layer L pdf_path init_frame))) = []
        \<and> strip (ocr_text L pdf_path) = []
      \<longrightarrow> snd (extract_text_from_pdf L pdf_path) = Returned [])"
proof -
  obtain s1 f1 where r: "read_text_layer L pdf_path init_frame = (s1, f1)"
    by (cases "read_text_layer L pdf_path init_frame")
  show ?thesis
    using strip_append_Nil [of "text_buf s1" "ocr_text L pdf_path"]
    by (auto simp: extract_text_from_pdf_eq [OF r] r)
qed

theorem extract_never_raises_witness:
  "strip (text_buf (fst (read_text_layer libs_unreadable ''cv.pdf'' init_frame))) = []
   \<and> strip (ocr_text libs_unreadable ''cv.pdf'') = []
   \<and> snd (extract_text_from_pdf libs_unreadable ''cv.pdf'') = Returned []"
proof -
  have h: "strip (text_buf (fst (read_text_layer libs_unreadable ''cv.pdf'' init_frame))) = []
      \<and> strip (ocr_text libs_unreadable ''cv.pdf'') = []"
    by (simp add: libs_unreadable_def run_defs)
  with extract_never_raises [of libs_unreadable "''cv.pdf''"] show ?thesis by simp
qed

subsection \<open>The text-layer return is not stripped\<close>

text \<open>
  Claim C5 fails on the text-layer path: \<^verbatim>\<open>if text.strip(): return text\<close> tests the
  stripped text and returns the unstripped one, while the last line of the function
  returns \<^verbatim>\<open>text.strip()\<close> (\<open>ocr_path_return_trimmed\<close>).  A one-page resume whose
  text ends with a line feed comes back with the line feed.
\<close>

theorem text_layer_return_untrimmed:
  "snd (extract_text_from_pdf libs_padded ''cv.pdf'') = Returned ''Jane Doe\<newline>''
   \<and> strip ''Jane Doe\<newline>'' = ''Jane Doe''"
  by (simp add: libs_padded_def run_defs)

subsection \<open>A text layer that raises keeps its partial text\<close>

text \<open>
  What the function returns when the text-layer stage raises: the text accumulated so
  far stays in \<open>text\<close>, the OCR stage appends to it, and the result is the stripped
  concatenation.
\<close>

lemma partial_text_kept:
  assumes "read_text_layer L pdf_path init_frame = (s1, Raised)"
  shows "snd (extract_text_from_pdf L pdf_path) = Returned (strip (text_buf s1 @ ocr_text L pdf_path))"
  by (simp add: extract_text_from_pdf_eq [OF assms])

text \<open>
  Claim C6 fails on the code.  The claim is that a text-layer stage that fails partway
  has its partial output discarded, so that the result holds only what the OCR fallback
  produces.  Nothing resets \<open>text\<close> when the first \<open>try\<close> is left by an exception, so
  the OCR stage, which reads the whole document again, appends to the partial text.  For
  a resume whose first page gives \<open>Jane Doe\<close> and whose second page raises, the OCR
  stage alone produces \<open>Jane Doe\<close>, a line feed and \<open>Python\<close>; the function returns
  that text behind a second \<open>Jane Doe\<close>.
\<close>

theorem partial_text_not_discarded:
  "read_text_layer libs_broken_page ''cv.pdf'' init_frame
     = (\<lparr>text_buf = ''Jane Doe'', calls = [PdfplumberOpen, ExtractText, ExtractText, ExtractText]\<rparr>,
        Raised)
   \<and> strip (ocr_text libs_broken_page ''cv.pdf'') = ''Jane Doe\<newline>Python''
   \<and> snd (extract_text_from_pdf libs_broken_page ''cv.pdf'')
       = Returned ''Jane DoeJane Doe\<newline>Python''"
  by (simp add: libs_broken_page_def run_defs)

section \<open>Properties of analyze_resume\<close>

subsection \<open>Auxiliary facts\<close>

text \<open>
  The match of the regular expression, characterised: where the text before the object
  has no opening brace and the text after it no closing brace, the match is the object.
\<close>

lemma json_match_wrapped:
  assumes "CHR ''{'' \<notin> set pre" and "CHR ''}'' \<notin> set post"
  shows "json_match (pre @ CHR ''{'' # w @ CHR ''}'' # post) = Some (CHR ''{'' # w @ [CHR ''}''])"
proof -
  have front: "dropWhile (\<lambda>c. c \<noteq> CHR ''{'') (pre @ CHR ''{'' # w @ CHR ''}'' # post)
                 = CHR ''{'' # w @ CHR ''}'' # post"
    using assms(1) by (auto simp: dropWhile_append3 dropWhile_eq_Nil_conv)
  have rear: "dropWhile (\<lambda>c. c \<noteq> CHR ''}'') (rev post @ CHR ''}'' # rev w @ [CHR ''{''])
                 = CHR ''}'' # rev w @ [CHR ''{'']"
    using assms(2) by (auto simp: dropWhile_append3 dropWhile_eq_Nil_conv)
  show ?thesis
    unfolding json_match_def Let_def front using rear by simp
qed

text \<open>No match means that no opening brace is followed, anywhere later, by a closing one.\<close>

lemma json_match_None_iff:
  "json_match s = None \<longleftrightarrow> \<not> (\<exists>pre w post. s = pre @ CHR ''{'' # w @ CHR ''}'' # post)"
proof
  assume none: "json_match s = None"
  show "\<not> (\<exists>pre w post. s = pre @ CHR ''{'' # w @ CHR ''}'' # post)"
  proof
    assume "\<exists>pre w post. s = pre @ CHR ''{'' # w @ CHR ''}'' # post"
    then obtain pre w post where s: "s = pre @ CHR ''{'' # w @ CHR ''}'' # post" by blast
    have "dropWhile (\<lambda>c. c \<noteq> CHR ''{'') s
            = dropWhile (\<lambda>c. c \<noteq> CHR ''{'') pre @ CHR ''{'' # w @ CHR ''}'' # post"
      unfolding s by (simp add: dropWhile_append3)
    then have "CHR ''}'' \<in> set (dropWhile (\<lambda>c. c \<noteq> CHR ''{'') s)" by simp
    with none show False by (simp add: json_match_def Let_def)
  qed
next
  assume no: "\<not> (\<exists>pre w post. s = pre @ CHR ''{'' # w @ CHR ''}'' # post)"
  show "json_match s = None"
  proof (rule ccontr)
    assume "json_match s \<noteq> None"
    then have inb: "CHR ''}'' \<in> set (dropWhile (\<lambda>c. c \<noteq> CHR ''{'') s)"
      by (auto simp: json_match_def Let_def split: if_splits)
    then obtain t where t: "dropWhile (\<lambda>c. c \<noteq> CHR ''{'') s = CHR ''{'' # t"
      using hd_dropWhile [of "\<lambda>c. c \<noteq> CHR ''{''" s]
      by (cases "dropWhile (\<lambda>c. c \<noteq> CHR ''{'') s") auto
    with inb have "CHR ''}'' \<in> set t" by simp
    then obtain w post where "t = w @ CHR ''}'' # post" by (auto dest: split_list)
    with t have "s = takeWhile (\<lambda>c. c \<noteq> CHR ''{'') s @ CHR ''{'' # w @ CHR ''}'' # post"
      using takeWhile_dropWhile_id [of "\<lambda>c. c \<noteq> CHR ''{''" s] by simp
    with no show False by blast
  qed
qed

text \<open>
  The exceptions of \<open>json.loads\<close>: a \<open>JSONDecodeError\<close>, the \<open>ValueError\<close> of the digit
  limit, or a \<open>RecursionError\<close>.
\<close>

lemma deliver_error: "deliver v st = Inl e \<Longrightarrow> e = JSONDecodeError"
  by (cases "(v, st)" rule: deliver.cases) auto

lemma close_array_error: "close_array st = Inl e \<Longrightarrow> e = JSONDecodeError"
  by (cases st rule: close_array.cases) (auto dest: deliver_error)

lemma close_object_error: "close_object st = Inl e \<Longrightarrow> e = JSONDecodeError"
  by (cases st rule: close_object.cases) (auto dest: deliver_error)

lemma open_key_error: "open_key k st = Inl e \<Longrightarrow> e = JSONDecodeError"
  by (cases "(k, st)" rule: open_key.cases) auto

lemma step_value_error:
  "step_value L first st t = Inl e \<Longrightarrow>
     e = JSONDecodeError \<or> e = DigitLimitError \<or> e = RecursionError"
  by (cases t)
     (auto simp: word_value_def split: if_splits sum.splits option.splits
           dest: deliver_error close_array_error)

lemma step_error:
  "step L s t = Inl e \<Longrightarrow> e = JSONDecodeError \<or> e = DigitLimitError \<or> e = RecursionError"
proof (cases s)
  case (Pair st x)
  then show "step L s t = Inl e \<Longrightarrow> ?thesis"
    by (cases x; cases t)
       (auto simp: word_value_def split: if_splits sum.splits option.splits
             dest: deliver_error close_array_error close_object_error open_key_error)
qed

lemma run_error:
  "run L s ts ok = Inl e \<Longrightarrow> e = JSONDecodeError \<or> e = DigitLimitError \<or> e = RecursionError"
proof (induction ts arbitrary: s)
  case Nil
  then show ?case by (cases s) (auto split: if_splits expect.splits)
next
  case (Cons t ts)
  then show ?case by (auto split: sum.splits dest: step_error)
qed

lemma json_loads_error:
  "json_loads L s = Inl e \<Longrightarrow> e = JSONDecodeError \<or> e = DigitLimitError \<or> e = RecursionError"
  by (auto simp: json_loads_def split: prod.splits dest: run_error)

text \<open>
  Whatever the limit, a text can exceed it: more opening brackets than
  \<open>recursion_limit\<close> raise \<open>RecursionError\<close>, whatever follows them.
\<close>

lemma lex_brackets:
  "lex Idle (replicate n (CHR ''['') @ s)
     = (replicate n TLBracket @ fst (lex Idle s), snd (lex Idle s))"
  by (induction n) (simp_all add: json_space_def punct_def emit_def)

lemma run_brackets:
  assumes "e = Value \<or> e = FirstElem" and "recursion_limit L < length st + Suc n"
  shows "run L (st, e) (replicate (Suc n) TLBracket @ ts) ok = Inl RecursionError"
  using assms
proof (induction n arbitrary: st e)
  case 0
  then show ?case by auto
next
  case (Suc n)
  show ?case
  proof (cases "recursion_limit L \<le> length st")
    case True
    with Suc.prems(1) show ?thesis by auto
  next
    case False
    have "run L (CArr [] # st, FirstElem) (replicate (Suc n) TLBracket @ ts) ok = Inl RecursionError"
      using Suc.prems(2) by (intro Suc.IH) auto
    with False Suc.prems(1) show ?thesis by auto
  qed
qed

lemma json_loads_deep:
  assumes "recursion_limit L < n"
  shows "json_loads L (replicate n (CHR ''['') @ s) = Inl RecursionError"
proof -
  from assms obtain m where n: "n = Suc m" by (cases n) auto
  with assms have "recursion_limit L < length ([] :: ctx list) + Suc m" by simp
  from run_brackets [OF _ this, of Value] n show ?thesis
    by (simp add: json_loads_def lex_brackets del: replicate_Suc)
qed

lemma analyze_resume_reply:
  "generate_content (prompt resume_text job_description) = Inr reply \<Longrightarrow>
     analyze_resume L generate_content resume_text job_description = parse_response L reply"
  by (simp add: analyze_resume_def)

subsection \<open>JSON wrapped in prose\<close>

text \<open>
  Claim C1, as amended.  The parsing step first parses the whole reply: a reply that is
  valid JSON gives its own value.  When that fails, it parses the text from the first
  opening brace to the last closing brace: for a reply that is a JSON object wrapped in
  prose with no opening brace before the object and no closing brace after it, and that
  is not valid JSON as a whole, this text is the object and the step returns the value of
  the bare object.
\<close>

theorem wrapped_json_recovered:
  "(json_loads L reply = Inr v \<longrightarrow> parse_response L reply = Inr v)
   \<and> ((\<exists>e. json_loads L reply = Inl e)
        \<and> reply = pre @ CHR ''{'' # w @ CHR ''}'' # post
        \<and> CHR ''{'' \<notin> set pre \<and> CHR ''}'' \<notin> set post
        \<and> json_loads L (CHR ''{'' # w @ [CHR ''}'']) = Inr v
      \<longrightarrow> json_match reply = Some (CHR ''{'' # w @ [CHR ''}''])
          \<and> parse_response L reply = Inr v)"
  by (auto simp: parse_response_def json_match_wrapped)

theorem wrapped_json_recovered_witness:
  \<open>json_loads usual_limits reply_in_prose = Inl JSONDecodeError
   \<and> reply_in_prose = ''Here is the result:\<newline>'' @ reply_bare @ ''\<newline>Thanks.''
   \<and> parse_response usual_limits reply_bare
        = Inr (JObject [(codes ''overall_match_score'', JInt 72),
                        (codes ''final_decision'', JString (codes ''Shortlist''))])
   \<and> parse_response usual_limits reply_in_prose
        = Inr (JObject [(codes ''overall_match_score'', JInt 72),
                        (codes ''final_decision'', JString (codes ''Shortlist''))])\<close>
proof -
  let ?w = \<open>''"overall_match_score":72,"final_decision":"Shortlist"''\<close>
  let ?v = "JObject [(codes ''overall_match_score'', JInt 72),
                     (codes ''final_decision'', JString (codes ''Shortlist''))]"
  have bare: "reply_bare = CHR ''{'' # ?w @ [CHR ''}'']"
    by (simp add: reply_bare_def)
  have whole: "json_loads usual_limits reply_in_prose = Inl JSONDecodeError"
    by code_simp
  have shape: "reply_in_prose = ''Here is the result:\<newline>'' @ CHR ''{'' # ?w @ CHR ''}'' # ''\<newline>Thanks.''"
    by (simp add: reply_in_prose_def reply_bare_def)
  have inner: "json_loads usual_limits (CHR ''{'' # ?w @ [CHR ''}'']) = Inr ?v"
    by code_simp
  have a: "parse_response usual_limits reply_bare = Inr ?v"
    using wrapped_json_recovered [of usual_limits reply_bare ?v] inner bare by simp
  have b: "parse_response usual_limits reply_in_prose = Inr ?v"
    using wrapped_json_recovered
            [of usual_limits reply_in_prose ?v "''Here is the result:\<newline>''" ?w "''\<newline>Thanks.''"]
          whole shape inner
    by simp
  show ?thesis
    using whole a b by (simp add: reply_in_prose_def)
qed

text \<open>
  The claim as first stated fails for prose that has a brace of its own: the text from
  the first opening brace to the last closing brace is then not the object, and the
  step raises.  It also fails where the wrapped text is itself valid JSON: the step
  returns that other value.
\<close>

theorem braces_in_prose_counterexample:
  \<open>reply_braces_in_prose = ''Result {draft}: '' @ reply_bare
   \<and> json_loads usual_limits reply_bare
        = Inr (JObject [(codes ''overall_match_score'', JInt 72),
                        (codes ''final_decision'', JString (codes ''Shortlist''))])
   \<and> parse_response usual_limits reply_braces_in_prose = Inl JSONDecodeError
   \<and> parse_response usual_limits reply_in_brackets
        = Inr (JArray [JObject [(codes ''overall_match_score'', JInt 72),
                                (codes ''final_decision'', JString (codes ''Shortlist''))]])\<close>
proof -
  have "reply_braces_in_prose = ''Result {draft}: '' @ reply_bare"
    by (simp add: reply_braces_in_prose_def)
  moreover have "json_loads usual_limits reply_bare
        = Inr (JObject [(codes ''overall_match_score'', JInt 72),
                        (codes ''final_decision'', JString (codes ''Shortlist''))])"
    by code_simp
  moreover have "parse_response usual_limits reply_braces_in_prose = Inl JSONDecodeError"
    by code_simp
  moreover have "parse_response usual_limits reply_in_brackets
        = Inr (JArray [JObject [(codes ''overall_match_score'', JInt 72),
                                (codes ''final_decision'', JString (codes ''Shortlist''))]])"
    by code_simp
  ultimately show ?thesis by blast
qed

subsection \<open>When the function fails\<close>

text \<open>
  Claim C2, as amended.  Given the reply of the model, \<open>analyze_resume\<close> fails if and
  only if \<open>json.loads\<close> raises on the whole reply and there is either no text from a
  first opening brace to a last closing brace, or \<open>json.loads\<close> raises on that text
  too.  With no brace-delimited text the exception is
  \<open>ValueError("Model did not return valid JSON.")\<close>; in particular every reply that has
  no brace-delimited text and is not itself valid JSON raises it.  With a
  brace-delimited text the exception is the one the second \<open>json.loads\<close> raised,
  unchanged.  So a failure is a \<open>ValueError\<close> (the explicit one, a \<open>JSONDecodeError\<close>
  or the digit-limit error, its kinds) or the \<open>RecursionError\<close> of a brace-delimited
  text nested too deep.
\<close>

theorem fails_iff_both_parses_fail:
  assumes "generate_content (prompt resume_text job_description) = Inr reply"
  shows "((\<exists>e. analyze_resume L generate_content resume_text job_description = Inl e)
            \<longleftrightarrow> (\<exists>e. json_loads L reply = Inl e)
                \<and> (case json_match reply of
                     None \<Rightarrow> True
                   | Some m \<Rightarrow> (\<exists>e. json_loads L m = Inl e)))
         \<and> ((\<exists>e. json_loads L reply = Inl e) \<and> json_match reply = None
              \<longrightarrow> analyze_resume L generate_content resume_text job_description
                    = Inl (ValueError ''Model did not return valid JSON.''))
         \<and> ((\<exists>e'. json_loads L reply = Inl e') \<and> json_match reply = Some m
              \<and> json_loads L m = Inl e
              \<longrightarrow> analyze_resume L generate_content resume_text job_description = Inl e)
         \<and> (\<forall>e. analyze_resume L generate_content resume_text job_description = Inl e
                \<longrightarrow> is_ValueError e \<or> e = RecursionError)"
proof -
  have kinds: "is_ValueError e \<or> e = RecursionError" if "json_loads L s = Inl e" for s e
    using json_loads_error [OF that] by (auto simp: is_ValueError_def)
  show ?thesis
    unfolding analyze_resume_reply [of generate_content resume_text job_description reply L, OF assms]
    by (auto simp: parse_response_def is_ValueError_def split: option.splits sum.splits
             dest: kinds)
qed

theorem fails_iff_both_parses_fail_witness:
  "json_loads usual_limits reply_refusal = Inl JSONDecodeError
   \<and> json_match reply_refusal = None
   \<and> analyze_resume usual_limits (replies reply_refusal) ''5 years Python, AWS, Docker'' None
       = Inl (ValueError ''Model did not return valid JSON.'')
   \<and> json_loads shallow_limits reply_nested = Inl JSONDecodeError
   \<and> json_match reply_nested = Some (drop 8 reply_nested)
   \<and> json_loads shallow_limits (drop 8 reply_nested) = Inl RecursionError
   \<and> analyze_resume shallow_limits (replies reply_nested) ''5 years Python, AWS, Docker'' None
       = Inl RecursionError
   \<and> \<not> is_ValueError RecursionError"
proof -
  have g: "replies reply_refusal (prompt ''5 years Python, AWS, Docker'' None) = Inr reply_refusal"
    by (simp add: replies_def)
  have l: "json_loads usual_limits reply_refusal = Inl JSONDecodeError"
    by code_simp
  have m: "json_match reply_refusal = None"
    by code_simp
  have g': "replies reply_nested (prompt ''5 years Python, AWS, Docker'' None) = Inr reply_nested"
    by (simp add: replies_def)
  have l': "json_loads shallow_limits reply_nested = Inl JSONDecodeError"
    by code_simp
  have m': "json_match reply_nested = Some (drop 8 reply_nested)"
    by code_simp
  have d': "json_loads shallow_limits (drop 8 reply_nested) = Inl RecursionError"
    by code_simp
  have a: "analyze_resume usual_limits (replies reply_refusal) ''5 years Python, AWS, Docker'' None
             = Inl (ValueError ''Model did not return valid JSON.'')"
    using fails_iff_both_parses_fail
            [of "replies reply_refusal" "''5 years Python, AWS, Docker''" None reply_refusal
                usual_limits, OF g] l m
    by simp
  have b: "analyze_resume shallow_limits (replies reply_nested) ''5 years Python, AWS, Docker'' None
             = Inl RecursionError"
    using fails_iff_both_parses_fail
            [of "replies reply_nested" "''5 years Python, AWS, Docker''" None reply_nested
                shallow_limits "drop 8 reply_nested" RecursionError, OF g'] l' m' d'
    by simp
  show ?thesis
    using l m a l' m' d' b by (simp add: is_ValueError_def)
qed

text \<open>
  The claim as first stated fails for a reply that has no brace at all and is a JSON
  value of another kind: the first parse succeeds and the value is returned.
\<close>

theorem no_object_yet_returned_counterexample:
  "json_match reply_quoted_refusal = None
   \<and> CHR ''{'' \<notin> set reply_quoted_refusal
   \<and> analyze_resume usual_limits (replies reply_quoted_refusal) ''5 years Python, AWS, Docker'' None
       = Inr (JString (codes ''I cannot process this.''))"
proof -
  have "json_match reply_quoted_refusal = None"
    by code_simp
  moreover have "CHR ''{'' \<notin> set reply_quoted_refusal"
    by (simp add: reply_quoted_refusal_def)
  moreover have "parse_response usual_limits reply_quoted_refusal
                   = Inr (JString (codes ''I cannot process this.''))"
    by code_simp
  ultimately show ?thesis
    by (simp add: analyze_resume_def replies_def)
qed

subsection \<open>The job-description slot\<close>

text \<open>
  Claim C7.  A job description equal to the sentinel \<open>Not provided\<close> gives, character
  for character, the prompt that an absent job description gives; the model service
  receives the same prompt, so the whole call has the same outcome.
\<close>

theorem sentinel_same_prompt:
  "prompt resume_text (Some ''Not provided'') = prompt resume_text None
   \<and> analyze_resume L generate_content resume_text (Some ''Not provided'')
       = analyze_resume L generate_content resume_text None"
  by (simp add: analyze_resume_def prompt_def job_description_slot_def)

text \<open>
  Claim C9.  An empty job description is falsy, so it is treated as an absent one: the
  prompt built for it is the prompt built for no job description, and that prompt is
  the fixed head, the resume, and then the line \<open>Job Description:\<close> followed by the line
  that holds the sentinel \<open>Not provided\<close>.
\<close>

theorem empty_job_description_same_prompt:
  "prompt resume_text (Some []) = prompt resume_text None
   \<and> prompt resume_text (Some [])
       = prompt_head
         @ lines_text [''    '' @ resume_text, '''', ''    Job Description:'', ''    Not provided'']
         @ ''    ''
   \<and> prompt resume_text None
       = prompt_head
         @ lines_text [''    '' @ resume_text, '''', ''    Job Description:'', ''    Not provided'']
         @ ''    ''
   \<and> job_description_slot (Some []) = ''Not provided''
   \<and> analyze_resume L generate_content resume_text (Some [])
       = analyze_resume L generate_content resume_text None"
  by (simp add: analyze_resume_def prompt_def job_description_slot_def)

subsection \<open>No validation of the parsed value\<close>

text \<open>
  Claim C8.  Whatever value the reply parses to, directly or through the brace
  recovery, \<open>analyze_resume\<close> returns that value unchanged: nothing about \<open>v\<close> is
  assumed, neither the types of its fields, nor the range of the scores, nor the
  enumerations.  The witness is a reply that breaks the invariants of a MatchResult and
  is returned all the same.
\<close>

theorem parsed_value_returned_unvalidated:
  assumes "generate_content (prompt resume_text job_description) = Inr reply"
  shows "(json_loads L reply = Inr v
            \<longrightarrow> analyze_resume L generate_content resume_text job_description = Inr v)
         \<and> ((\<exists>e. json_loads L reply = Inl e) \<and> json_match reply = Some m \<and> json_loads L m = Inr v
            \<longrightarrow> analyze_resume L generate_content resume_text job_description = Inr v)"
  unfolding analyze_resume_reply [of generate_content resume_text job_description reply L, OF assms]
  by (auto simp: parse_response_def)

theorem parsed_value_returned_unvalidated_witness:
  "analyze_resume usual_limits (replies reply_out_of_range) ''5 years Python, AWS, Docker''
       (Some ''Python backend engineer'')
     = Inr (JObject [(codes ''overall_match_score'', JInt 250),
                     (codes ''skill_match_score'', JString (codes ''high'')),
                     (codes ''degree_match'', JString (codes ''maybe'')),
                     (codes ''final_decision'', JString (codes ''Hire''))])
   \<and> \<not> valid_match_result
          (JObject [(codes ''overall_match_score'', JInt 250),
                    (codes ''skill_match_score'', JString (codes ''high'')),
                    (codes ''degree_match'', JString (codes ''maybe'')),
                    (codes ''final_decision'', JString (codes ''Hire''))])
   \<and> json_loads usual_limits reply_fenced_out_of_range = Inl JSONDecodeError
   \<and> analyze_resume usual_limits (replies reply_fenced_out_of_range) ''5 years Python, AWS, Docker'' None
       = Inr (JObject [(codes ''overall_match_score'', JInt (- 5))])
   \<and> \<not> valid_match_result (JObject [(codes ''overall_match_score'', JInt (- 5))])"
proof -
  let ?v = "JObject [(codes ''overall_match_score'', JInt 250),
                     (codes ''skill_match_score'', JString (codes ''high'')),
                     (codes ''degree_match'', JString (codes ''maybe'')),
                     (codes ''final_decision'', JString (codes ''Hire''))]"
  let ?u = "JObject [(codes ''overall_match_score'', JInt (- 5))]"
  let ?m = \<open>''{"overall_match_score": -5}''\<close>
  have g1: "replies reply_out_of_range
              (prompt ''5 years Python, AWS, Docker'' (Some ''Python backend engineer''))
            = Inr reply_out_of_range"
    by (simp add: replies_def)
  have g2: "replies reply_fenced_out_of_range (prompt ''5 years Python, AWS, Docker'' None)
            = Inr reply_fenced_out_of_range"
    by (simp add: replies_def)
  have l1: "json_loads usual_limits reply_out_of_range = Inr ?v"
    by code_simp
  have l2: "json_loads usual_limits reply_fenced_out_of_range = Inl JSONDecodeError"
    by code_simp
  have m2: "json_match reply_fenced_out_of_range = Some ?m"
    by code_simp
  have l3: "json_loads usual_limits ?m = Inr ?u"
    by code_simp
  have n1: "\<not> valid_match_result ?v"
    by code_simp
  have n2: "\<not> valid_match_result ?u"
    by code_simp
  have a: "analyze_resume usual_limits (replies reply_out_of_range) ''5 years Python, AWS, Docker''
             (Some ''Python backend engineer'') = Inr ?v"
    using parsed_value_returned_unvalidated
            [of "replies reply_out_of_range" "''5 years Python, AWS, Docker''"
                "Some ''Python backend engineer''" reply_out_of_range usual_limits ?v, OF g1] l1
    by simp
  have b: "analyze_resume usual_limits (replies reply_fenced_out_of_range)
             ''5 years Python, AWS, Docker'' None = Inr ?u"
    using parsed_value_returned_unvalidated
            [of "replies reply_fenced_out_of_range" "''5 years Python, AWS, Docker''" None
                reply_fenced_out_of_range usual_limits ?u ?m, OF g2] l2 m2 l3
    by simp
  show ?thesis
    using a b n1 n2 l2 by simp
qed

subsection \<open>A reply that is not an object\<close>

text \<open>
  Claim C10.  Nothing checks that the parsed top-level value is an object: when the
  whole reply parses to a value that is not an object (a number, a string, an array),
  \<open>analyze_resume\<close> returns that value, which is no MatchResult.
\<close>

theorem non_object_reply_returned:
  assumes "generate_content (prompt resume_text job_description) = Inr reply"
    and "json_loads L reply = Inr v"
    and "\<not> is_object v"
  shows "analyze_resume L generate_content resume_text job_description = Inr v
         \<and> \<not> valid_match_result v"
  using assms(2,3)
  unfolding analyze_resume_reply [of generate_content resume_text job_description reply L, OF assms(1)]
  by (cases v) (simp_all add: parse_response_def is_object_def valid_match_result_def)

theorem non_object_reply_returned_witness:
  "analyze_resume usual_limits (replies ''42'') ''5 years Python, AWS, Docker'' None = Inr (JInt 42)
   \<and> analyze_resume usual_limits (replies ''[1, 2]'') ''5 years Python, AWS, Docker'' None
       = Inr (JArray [JInt 1, JInt 2])
   \<and> \<not> valid_match_result (JInt 42)"
proof -
  have g1: "replies ''42'' (prompt ''5 years Python, AWS, Docker'' None) = Inr ''42''"
    by (simp add: replies_def)
  have g2: "replies ''[1, 2]'' (prompt ''5 years Python, AWS, Docker'' None) = Inr ''[1, 2]''"
    by (simp add: replies_def)
  have l1: "json_loads usual_limits ''42'' = Inr (JInt 42)"
    by code_simp
  have l2: "json_loads usual_limits ''[1, 2]'' = Inr (JArray [JInt 1, JInt 2])"
    by code_simp
  have o1: "\<not> is_object (JInt 42)"
    by (simp add: is_object_def)
  have o2: "\<not> is_object (JArray [JInt 1, JInt 2])"
    by (simp add: is_object_def)
  from non_object_reply_returned
         [of "replies ''42''" "''5 years Python, AWS, Docker''" None "''42''" usual_limits "JInt 42",
          OF g1 l1 o1]
       non_object_reply_returned
         [of "replies ''[1, 2]''" "''5 years Python, AWS, Docker''" None "''[1, 2]''" usual_limits
             "JArray [JInt 1, JInt 2]", OF g2 l2 o2]
  show ?thesis by simp
qed

end
